theory Spec2Isabelle
  imports Main
begin

section \<open>Python strings\<close>

text \<open>
  A Python \<open>str\<close> is a sequence of Unicode code points; \<open>len\<close> counts code points.
  A string is therefore a list of code points, each a natural number.
\<close>

type_synonym pystr = "nat list"

abbreviation lit :: "string \<Rightarrow> pystr" where
  "lit s \<equiv> map of_char s"

text \<open>
  \<open>str.isspace\<close> on one character. CPython uses the same test for \<open>\s\<close> in a
  \<open>str\<close> pattern of \<open>re\<close>, for \<open>str.strip()\<close> and for \<open>str.split()\<close> without
  arguments.
\<close>

definition py_isspace :: "nat \<Rightarrow> bool" where
  "py_isspace c =
     ((9 \<le> c \<and> c \<le> 13) \<or> (28 \<le> c \<and> c \<le> 32) \<or> c = 133 \<or> c = 160 \<or> c = 5760 \<or>
      (8192 \<le> c \<and> c \<le> 8202) \<or> c = 8232 \<or> c = 8233 \<or> c = 8239 \<or> c = 8287 \<or>
      c = 12288)"

text \<open>
  \<open>\w\<close> in a \<open>str\<close> pattern: \<open>str.isalnum\<close> or the underscore. The table behind
  \<open>str.isalnum\<close> is the Unicode database of the interpreter; it is a parameter
  \<open>alnum\<close> of everything that cleans text.
\<close>

definition re_word :: "(nat \<Rightarrow> bool) \<Rightarrow> nat \<Rightarrow> bool" where
  "re_word alnum c = (alnum c \<or> c = 95)"

text \<open>\<open>str.isalnum\<close> on the ASCII range, for evaluating the functions on ASCII inputs.\<close>

definition ascii_isalnum :: "nat \<Rightarrow> bool" where
  "ascii_isalnum c = ((48 \<le> c \<and> c \<le> 57) \<or> (65 \<le> c \<and> c \<le> 90) \<or> (97 \<le> c \<and> c \<le> 122))"

text \<open>\<open>text.strip()\<close>\<close>

definition py_strip :: "pystr \<Rightarrow> pystr" where
  "py_strip s = rev (dropWhile py_isspace (rev (dropWhile py_isspace s)))"

text \<open>\<open>sep.join(parts)\<close>\<close>

fun py_join :: "pystr \<Rightarrow> pystr list \<Rightarrow> pystr" where
  "py_join sep [] = []"
| "py_join sep [x] = x"
| "py_join sep (x # y # ys) = x @ sep @ py_join sep (y # ys)"

text \<open>\<open>text.split(sep)\<close> for a separator of one character\<close>

fun py_split_chr :: "nat \<Rightarrow> pystr \<Rightarrow> pystr list" where
  "py_split_chr sep [] = [[]]"
| "py_split_chr sep (c # cs) =
     (if c = sep then [] # py_split_chr sep cs
      else (case py_split_chr sep cs of
              [] \<Rightarrow> [[c]]
            | w # ws \<Rightarrow> (c # w) # ws))"

text \<open>\<open>text.split()\<close>: the maximal runs of characters that are not whitespace\<close>

function py_split :: "pystr \<Rightarrow> pystr list" where
  "py_split [] = []"
| "py_split (c # cs) =
     (if py_isspace c then py_split cs
      else (c # takeWhile (\<lambda>x. \<not> py_isspace x) cs)
             # py_split (dropWhile (\<lambda>x. \<not> py_isspace x) cs))"
  by pat_completeness auto
termination
  by (relation "measure length") (auto simp: length_dropWhile_le less_Suc_eq_le)

text \<open>\<open>text.replace(old, new)\<close>: occurrences of \<open>old\<close> are replaced from the left and
  do not overlap; an empty \<open>old\<close> matches before every character and at the end.\<close>

function replace_from :: "pystr \<Rightarrow> pystr \<Rightarrow> pystr \<Rightarrow> pystr" where
  "replace_from old new [] = []"
| "replace_from old new (c # cs) =
     (if old \<noteq> [] \<and> take (length old) (c # cs) = old
      then new @ replace_from old new (drop (length old - 1) cs)
      else c # replace_from old new cs)"
  by pat_completeness auto
termination
  by (relation "measure (\<lambda>(old, new, s). length s)") (auto simp: less_Suc_eq_le)

definition py_replace :: "pystr \<Rightarrow> pystr \<Rightarrow> pystr \<Rightarrow> pystr" where
  "py_replace old new s =
     (if old = [] then new @ concat (map (\<lambda>c. c # new) s) else replace_from old new s)"

section \<open>Cleaning\<close>

text \<open>
  The character class of the first substitution of \<open>clean_text\<close>, without its negation.
  The pattern is written as two adjacent string literals: the first apostrophe after
  \<open>""\<close> ends the raw literal, and the second one opens the literal that holds U+2026 and
  the closing bracket. The pattern is their concatenation, so the class has
  \<open>\w\<close>, \<open>\s\<close>, the ranges U+00C0 to U+1EF9 and U+1EA0 to U+1EF9, and the marks
  \<open>. , ! ? ; : ( ) " "\<close> and U+2026, in the order of the pattern; it has no apostrophe.
\<close>

definition punctuation :: "nat list" where
  "punctuation = [46, 44, 33, 63, 59, 58, 40, 41, 34, 34, 8230]"

definition allowed :: "(nat \<Rightarrow> bool) \<Rightarrow> nat \<Rightarrow> bool" where
  "allowed alnum c =
     (re_word alnum c \<or> py_isspace c \<or> (192 \<le> c \<and> c \<le> 7929) \<or> (7840 \<le> c \<and> c \<le> 7929) \<or>
      c \<in> set punctuation)"

text \<open>\<open>re.sub(r'[^...]', ' ', text)\<close>: every character outside the class becomes a space.\<close>

definition re_sub_special :: "(nat \<Rightarrow> bool) \<Rightarrow> pystr \<Rightarrow> pystr" where
  "re_sub_special alnum text = map (\<lambda>c. if allowed alnum c then c else 32) text"

text \<open>\<open>re.sub(r'\s+', ' ', text)\<close>: every maximal run of whitespace becomes one space.\<close>

function re_sub_ws :: "pystr \<Rightarrow> pystr" where
  "re_sub_ws [] = []"
| "re_sub_ws (c # cs) =
     (if py_isspace c then 32 # re_sub_ws (dropWhile py_isspace cs)
      else c # re_sub_ws cs)"
  by pat_completeness auto
termination
  by (relation "measure length") (auto simp: length_dropWhile_le less_Suc_eq_le)

text \<open>\<open>DocxTextExtractor.clean_text\<close>\<close>

definition docx_clean_text :: "(nat \<Rightarrow> bool) \<Rightarrow> pystr \<Rightarrow> pystr" where
  "docx_clean_text alnum text = py_strip (re_sub_ws (re_sub_special alnum text))"

text \<open>\<open>HtmlTextExtractor.clean_text\<close>\<close>

definition html_clean_text :: "(nat \<Rightarrow> bool) \<Rightarrow> pystr \<Rightarrow> pystr" where
  "html_clean_text alnum text = py_strip (re_sub_ws (re_sub_special alnum text))"

text \<open>\<open>PdfTextExtractor.clean_text\<close>\<close>

definition pdf_clean_text :: "(nat \<Rightarrow> bool) \<Rightarrow> pystr \<Rightarrow> pystr" where
  "pdf_clean_text alnum text = py_strip (re_sub_ws (re_sub_special alnum text))"

section \<open>The result mapping\<close>

text \<open>
  \<open>extracted_texts\<close> is a \<open>dict\<close>: it iterates in insertion order, and storing under a
  key that is present replaces the value and keeps the key's position.
\<close>

type_synonym results = "(pystr \<times> pystr) list"

fun dict_set :: "pystr \<Rightarrow> pystr \<Rightarrow> results \<Rightarrow> results" where
  "dict_set k v [] = [(k, v)]"
| "dict_set k v ((k', v') # d) =
     (if k' = k then (k', v) # d else (k', v') # dict_set k v d)"

section \<open>DOCX\<close>

text \<open>
  A DOCX file as the reader gives it: \<open>None\<close> when opening or parsing raises, otherwise
  the \<open>text\<close> of the paragraphs in document order.
\<close>

type_synonym docx_file = "pystr list option"

text \<open>The loop over \<open>doc.paragraphs\<close> that appends to \<open>full_text\<close>.\<close>

fun docx_full_text :: "pystr list \<Rightarrow> pystr list \<Rightarrow> pystr list" where
  "docx_full_text full_text [] = full_text"
| "docx_full_text full_text (p # ps) =
     (if py_strip p \<noteq> [] then docx_full_text (full_text @ [py_strip p]) ps
      else docx_full_text full_text ps)"

definition extract_text_from_docx :: "(nat \<Rightarrow> bool) \<Rightarrow> docx_file \<Rightarrow> pystr" where
  "extract_text_from_docx alnum doc =
     (case doc of
        None \<Rightarrow> []
      | Some paragraphs \<Rightarrow> docx_clean_text alnum (py_join [10] (docx_full_text [] paragraphs)))"

text \<open>\<open>Path.stem\<close>: the file name without its last suffix; a dot at the start or at the
  end of the name starts no suffix.\<close>

definition path_stem :: "pystr \<Rightarrow> pystr" where
  "path_stem name =
     (let i = length name - Suc (length (takeWhile (\<lambda>c. c \<noteq> 46) (rev name)))
      in if 46 \<in> set name \<and> 0 < i \<and> i < length name - 1 then take i name else name)"

text \<open>The loop of \<open>process_all_docx_files\<close> over the files of the glob, each given by
  its name and its content.\<close>

fun docx_files_loop ::
  "(nat \<Rightarrow> bool) \<Rightarrow> results \<Rightarrow> (pystr \<times> docx_file) list \<Rightarrow> results" where
  "docx_files_loop alnum extracted_texts [] = extracted_texts"
| "docx_files_loop alnum extracted_texts ((name, doc) # files) =
     (let text = extract_text_from_docx alnum doc
      in if text \<noteq> []
         then docx_files_loop alnum (dict_set (path_stem name) text extracted_texts) files
         else docx_files_loop alnum extracted_texts files)"

definition process_all_docx_files ::
  "(nat \<Rightarrow> bool) \<Rightarrow> (pystr \<times> docx_file) list \<Rightarrow> results" where
  "process_all_docx_files alnum docx_files = docx_files_loop alnum [] docx_files"

section \<open>Output\<close>

record metadata_row =
  filename :: pystr
  character_count :: nat
  word_count :: nat
  line_count :: nat

text \<open>What a run does to the file system. Logging is not part of the model.\<close>

datatype fs_op =
    MkDir pystr
  | WriteText pystr pystr
  | WriteCsv pystr "metadata_row list"

definition path_join :: "pystr \<Rightarrow> pystr \<Rightarrow> pystr" where
  "path_join dir name = dir @ [47] @ name"

definition save_extracted_texts :: "pystr \<Rightarrow> results \<Rightarrow> fs_op list" where
  "save_extracted_texts output_dir extracted_texts =
     map (\<lambda>(filename, text). WriteText (path_join output_dir (filename @ lit ''.txt'')) text)
       extracted_texts"

text \<open>The f-string \<open>=== {filename} ===\n{text}\n\<close> and the join of the blocks.\<close>

definition combined_block :: "pystr \<times> pystr \<Rightarrow> pystr" where
  "combined_block e = lit ''=== '' @ fst e @ lit '' ==='' @ [10] @ snd e @ [10]"

definition combined_text :: "results \<Rightarrow> pystr" where
  "combined_text extracted_texts = py_join [10] (map combined_block extracted_texts)"

definition create_combined_dataset :: "pystr \<Rightarrow> results \<Rightarrow> fs_op" where
  "create_combined_dataset output_dir extracted_texts =
     WriteText (path_join output_dir (lit ''combined_novel_text.txt''))
       (combined_text extracted_texts)"

text \<open>The rows of \<open>create_metadata\<close>; the statistics it logs afterwards are not
  modelled.\<close>

definition metadata_rows :: "results \<Rightarrow> metadata_row list" where
  "metadata_rows extracted_texts =
     map (\<lambda>(name, text).
            \<lparr>filename = name,
             character_count = length text,
             word_count = length (py_split text),
             line_count = length (py_split_chr 10 text)\<rparr>)
       extracted_texts"

definition create_metadata :: "pystr \<Rightarrow> results \<Rightarrow> fs_op" where
  "create_metadata output_dir extracted_texts =
     WriteCsv (path_join output_dir (lit ''metadata.csv'')) (metadata_rows extracted_texts)"

text \<open>\<open>main\<close> of the DOCX script, as the list of its file system operations. The
  constructor of the extractor creates the output directory.\<close>

definition docx_main :: "(nat \<Rightarrow> bool) \<Rightarrow> (pystr \<times> docx_file) list \<Rightarrow> fs_op list" where
  "docx_main alnum docx_files =
     (let output_dir = lit ''data/clean'';
          extracted_texts = process_all_docx_files alnum docx_files
      in MkDir output_dir #
         (if extracted_texts = [] then []
          else save_extracted_texts output_dir extracted_texts @
               [create_combined_dataset output_dir extracted_texts] @
               [create_metadata output_dir extracted_texts]))"

section \<open>HTML\<close>

text \<open>
  The tree of the HTML parser: a text node, or a tag with its name, the values of its
  \<open>class\<close> attribute and its children. Comments and declarations carry no text for
  \<open>get_text\<close> and are left out. A document is the list of the nodes at its top.
\<close>

datatype node = Text pystr | Tag pystr "pystr list" "node list"

fun tag_name :: "node \<Rightarrow> pystr" where
  "tag_name (Text s) = []"
| "tag_name (Tag n cls ch) = n"

fun tag_classes :: "node \<Rightarrow> pystr list" where
  "tag_classes (Text s) = []"
| "tag_classes (Tag n cls ch) = cls"

fun tag_children :: "node \<Rightarrow> node list" where
  "tag_children (Text s) = []"
| "tag_children (Tag n cls ch) = ch"

text \<open>All tags below the top of a forest, in document order.\<close>

fun descendants :: "node list \<Rightarrow> node list" where
  "descendants [] = []"
| "descendants (Text s # ns) = descendants ns"
| "descendants (Tag n cls ch # ns) = Tag n cls ch # descendants ch @ descendants ns"

definition find_all :: "(node \<Rightarrow> bool) \<Rightarrow> node list \<Rightarrow> node list" where
  "find_all P ns = filter P (descendants ns)"

text \<open>\<open>find\<close> is the first result of \<open>find_all\<close>, or \<open>None\<close>.\<close>

definition find_first :: "(node \<Rightarrow> bool) \<Rightarrow> node list \<Rightarrow> node option" where
  "find_first P ns = (case find_all P ns of [] \<Rightarrow> None | t # _ \<Rightarrow> Some t)"

text \<open>\<open>get_text\<close>: the text nodes below, concatenated in document order.\<close>

fun get_text :: "node list \<Rightarrow> pystr" where
  "get_text [] = []"
| "get_text (Text s # ns) = s @ get_text ns"
| "get_text (Tag n cls ch # ns) = get_text ch @ get_text ns"

text \<open>\<open>decompose\<close> on every tag whose name is in \<open>names\<close>.\<close>

fun decompose_all :: "pystr list \<Rightarrow> node list \<Rightarrow> node list" where
  "decompose_all names [] = []"
| "decompose_all names (Text s # ns) = Text s # decompose_all names ns"
| "decompose_all names (Tag n cls ch # ns) =
     (if n \<in> set names then decompose_all names ns
      else Tag n cls (decompose_all names ch) # decompose_all names ns)"

text \<open>The loop over the \<open>p\<close> tags of the article that appends to \<open>text_parts\<close>.\<close>

fun html_text_parts :: "pystr list \<Rightarrow> node list \<Rightarrow> pystr list" where
  "html_text_parts text_parts [] = text_parts"
| "html_text_parts text_parts (p # ps) =
     (let p_text = py_strip (get_text (tag_children p))
      in if p_text \<noteq> [] then html_text_parts (text_parts @ [p_text]) ps
         else html_text_parts text_parts ps)"

text \<open>The searches of \<open>extract_text_from_html\<close>: \<open>find('article')\<close>, \<open>find_all('p')\<close>,
  \<open>find('div', class_='story-content')\<close> and \<open>find('body')\<close>. A class search matches a
  tag when one of the values of its \<open>class\<close> attribute is the class.\<close>

definition is_article :: "node \<Rightarrow> bool" where
  "is_article t = (tag_name t = lit ''article'')"

definition is_p :: "node \<Rightarrow> bool" where
  "is_p t = (tag_name t = lit ''p'')"

definition is_story_content :: "node \<Rightarrow> bool" where
  "is_story_content t = (tag_name t = lit ''div'' \<and> lit ''story-content'' \<in> set (tag_classes t))"

definition is_body :: "node \<Rightarrow> bool" where
  "is_body t = (tag_name t = lit ''body'')"

text \<open>The text that \<open>extract_text_from_html\<close> selects, before cleaning. A tag object is
  true in a condition, whatever it contains.\<close>

definition html_select_text :: "node list \<Rightarrow> pystr" where
  "html_select_text soup =
     (case find_first is_article soup of
        Some article \<Rightarrow>
          py_join [10] (html_text_parts [] (find_all is_p (tag_children article)))
      | None \<Rightarrow>
          (case find_first is_story_content soup of
             Some story_content \<Rightarrow> get_text (tag_children story_content)
           | None \<Rightarrow>
               (case find_first is_body soup of
                  Some body \<Rightarrow> get_text (tag_children body)
                | None \<Rightarrow> get_text soup)))"

text \<open>An HTML file: \<open>None\<close> when reading or parsing raises, otherwise the parsed
  document.\<close>

type_synonym html_file = "node list option"

definition extract_text_from_html :: "(nat \<Rightarrow> bool) \<Rightarrow> html_file \<Rightarrow> pystr" where
  "extract_text_from_html alnum file =
     (case file of
        None \<Rightarrow> []
      | Some parsed \<Rightarrow>
          html_clean_text alnum
            (html_select_text (decompose_all [lit ''script'', lit ''style''] parsed)))"

text \<open>The key of a file from \<open>str(relative_path)\<close>; 92 is the backslash.\<close>

definition html_file_key :: "pystr \<Rightarrow> pystr" where
  "html_file_key relative_path =
     py_replace (lit ''.html'') []
       (py_replace (lit ''.htm'') []
          (py_replace (lit ''/'') (lit ''_'')
             (py_replace [92] (lit ''_'') relative_path)))"

fun html_files_loop ::
  "(nat \<Rightarrow> bool) \<Rightarrow> results \<Rightarrow> (pystr \<times> html_file) list \<Rightarrow> results" where
  "html_files_loop alnum extracted_texts [] = extracted_texts"
| "html_files_loop alnum extracted_texts ((relative_path, file) # files) =
     (let text = extract_text_from_html alnum file
      in if text \<noteq> []
         then html_files_loop alnum
                (dict_set (html_file_key relative_path) text extracted_texts) files
         else html_files_loop alnum extracted_texts files)"

definition process_all_html_files ::
  "(nat \<Rightarrow> bool) \<Rightarrow> (pystr \<times> html_file) list \<Rightarrow> results" where
  "process_all_html_files alnum html_files = html_files_loop alnum [] html_files"

section \<open>PDF\<close>

text \<open>A PDF file: \<open>None\<close> when opening the file, reading it or extracting a page raises,
  otherwise the extracted text of its pages in page order.\<close>

type_synonym pdf_file = "pystr list option"

text \<open>The loop over the pages that appends to \<open>full_text\<close>.\<close>

fun pdf_full_text :: "pystr list \<Rightarrow> pystr list \<Rightarrow> pystr list" where
  "pdf_full_text full_text [] = full_text"
| "pdf_full_text full_text (page_text # pages) =
     (if py_strip page_text \<noteq> [] then pdf_full_text (full_text @ [page_text]) pages
      else pdf_full_text full_text pages)"

text \<open>The joined text of the pages, before cleaning.\<close>

definition pdf_joined_text :: "pystr list \<Rightarrow> pystr" where
  "pdf_joined_text pages = py_join [10] (pdf_full_text [] pages)"

definition extract_text_from_pdf :: "(nat \<Rightarrow> bool) \<Rightarrow> pdf_file \<Rightarrow> pystr" where
  "extract_text_from_pdf alnum file =
     (case file of
        None \<Rightarrow> []
      | Some pages \<Rightarrow> pdf_clean_text alnum (pdf_joined_text pages))"

definition pdf_file_key :: "pystr \<Rightarrow> pystr" where
  "pdf_file_key relative_path =
     py_replace (lit ''.pdf'') []
       (py_replace (lit ''/'') (lit ''_'')
          (py_replace [92] (lit ''_'') relative_path))"

fun pdf_files_loop ::
  "(nat \<Rightarrow> bool) \<Rightarrow> results \<Rightarrow> (pystr \<times> pdf_file) list \<Rightarrow> results" where
  "pdf_files_loop alnum extracted_texts [] = extracted_texts"
| "pdf_files_loop alnum extracted_texts ((relative_path, file) # files) =
     (let text = extract_text_from_pdf alnum file
      in if text \<noteq> []
         then pdf_files_loop alnum
                (dict_set (pdf_file_key relative_path) text extracted_texts) files
         else pdf_files_loop alnum extracted_texts files)"

definition process_all_pdf_files ::
  "(nat \<Rightarrow> bool) \<Rightarrow> (pystr \<times> pdf_file) list \<Rightarrow> results" where
  "process_all_pdf_files alnum pdf_files = pdf_files_loop alnum [] pdf_files"

section \<open>Properties of cleaning\<close>

text \<open>No two neighbours of the string are both whitespace.\<close>

fun single_spaced :: "pystr \<Rightarrow> bool" where
  "single_spaced [] = True"
| "single_spaced [c] = True"
| "single_spaced (c # d # cs) = (\<not> (py_isspace c \<and> py_isspace d) \<and> single_spaced (d # cs))"

lemma isspace_32: "py_isspace 32" by (simp add: py_isspace_def)

lemma hd_re_sub_ws: "xs \<noteq> [] \<Longrightarrow> \<not> py_isspace (hd xs) \<Longrightarrow> re_sub_ws xs \<noteq> [] \<and> hd (re_sub_ws xs) = hd xs"
  by (cases xs) auto

lemma single_spaced_Cons: "single_spaced (c # xs) = ((xs \<noteq> [] \<longrightarrow> \<not> (py_isspace c \<and> py_isspace (hd xs))) \<and> single_spaced xs)"
  by (cases xs) auto

lemma single_spaced_re_sub_ws: "single_spaced (re_sub_ws xs)"
proof (induction xs rule: re_sub_ws.induct)
  case 1 show ?case by simp
next
  case (2 c cs)
  show ?case
  proof (cases "py_isspace c")
    case True
    let ?r = "dropWhile py_isspace cs"
    have "re_sub_ws ?r \<noteq> [] \<Longrightarrow> \<not> py_isspace (hd (re_sub_ws ?r))"
    proof -
      assume ne: "re_sub_ws ?r \<noteq> []"
      then have "?r \<noteq> []" by (cases ?r) auto
      then have "\<not> py_isspace (hd ?r)" by (rule hd_dropWhile)
      with \<open>?r \<noteq> []\<close> show ?thesis using hd_re_sub_ws by simp
    qed
    with 2 True show ?thesis by (simp add: single_spaced_Cons)
  next
    case False
    have "re_sub_ws cs \<noteq> [] \<Longrightarrow> py_isspace (hd (re_sub_ws cs)) \<Longrightarrow> True" by simp
    with 2 False show ?thesis by (simp add: single_spaced_Cons)
  qed
qed

lemma ws_re_sub_ws: "c \<in> set (re_sub_ws xs) \<Longrightarrow> py_isspace c \<Longrightarrow> c = 32"
proof (induction xs rule: re_sub_ws.induct)
  case 1 then show ?case by simp
next
  case (2 d cs) then show ?case by (auto split: if_splits)
qed

lemma set_re_sub_ws: "set (re_sub_ws xs) \<subseteq> insert 32 (set xs)"
proof (induction xs rule: re_sub_ws.induct)
  case 1 then show ?case by simp
next
  case (2 d cs) 
  have "set (dropWhile py_isspace cs) \<subseteq> set cs" by (rule set_dropWhileD[THEN subsetI]) 
  with 2 show ?case by (auto split: if_splits)
qed

lemma re_sub_ws_id: "single_spaced xs \<Longrightarrow> \<forall>c\<in>set xs. py_isspace c \<longrightarrow> c = 32 \<Longrightarrow> re_sub_ws xs = xs"
proof (induction xs rule: re_sub_ws.induct)
  case 1 then show ?case by simp
next
  case (2 d cs) 
  show ?case
  proof (cases "py_isspace d")
    case True
    with "2.prems"(2) have d: "d = 32" by simp
    from "2.prems"(1) True have nd: "cs \<noteq> [] \<longrightarrow> \<not> py_isspace (hd cs)" and ss: "single_spaced cs"
      by (simp_all add: single_spaced_Cons)
    from nd have dw: "dropWhile py_isspace cs = cs" by (cases cs) auto
    from "2.IH"(1)[OF True] ss "2.prems"(2) dw have "re_sub_ws cs = cs" by simp
    with True d dw show ?thesis by simp
  next
    case False
    with 2 show ?thesis by (simp add: single_spaced_Cons)
  qed
qed

lemma single_spaced_nth:
  "single_spaced xs \<Longrightarrow> Suc i < length xs \<Longrightarrow> \<not> (py_isspace (xs ! i) \<and> py_isspace (xs ! Suc i))"
proof (induction xs arbitrary: i rule: single_spaced.induct)
  case (3 c d cs)
  then show ?case by (cases i) auto
qed simp_all

lemma single_spaced_append:
  "single_spaced (xs @ ys) \<Longrightarrow> single_spaced xs \<and> single_spaced ys"
  by (induction xs rule: single_spaced.induct) (auto simp: single_spaced_Cons)

lemma single_spaced_dropWhile: "single_spaced xs \<Longrightarrow> single_spaced (dropWhile P xs)"
  using single_spaced_append [of "takeWhile P xs" "dropWhile P xs"] by simp

lemma single_spaced_snoc:
  "single_spaced (xs @ [c]) = ((xs \<noteq> [] \<longrightarrow> \<not> (py_isspace (last xs) \<and> py_isspace c)) \<and> single_spaced xs)"
  by (induction xs rule: single_spaced.induct) (auto simp: single_spaced_Cons)

lemma single_spaced_rev: "single_spaced (rev xs) = single_spaced xs"
  by (induction xs) (auto simp: single_spaced_Cons single_spaced_snoc last_rev)

lemma single_spaced_strip: "single_spaced xs \<Longrightarrow> single_spaced (py_strip xs)"
  by (simp add: py_strip_def single_spaced_rev single_spaced_dropWhile)

lemma set_strip: "set (py_strip xs) \<subseteq> set xs"
proof
  fix c assume "c \<in> set (py_strip xs)"
  then have "c \<in> set (dropWhile py_isspace (rev (dropWhile py_isspace xs)))"
    by (simp add: py_strip_def)
  then have "c \<in> set (rev (dropWhile py_isspace xs))" by (rule set_dropWhileD)
  then have "c \<in> set (dropWhile py_isspace xs)" by simp
  then show "c \<in> set xs" by (rule set_dropWhileD)
qed

lemma strip_ends:
  assumes "py_strip xs \<noteq> []"
  shows "\<not> py_isspace (hd (py_strip xs))" and "\<not> py_isspace (last (py_strip xs))"
proof -
  let ?ys = "dropWhile py_isspace xs"
  let ?zs = "dropWhile py_isspace (rev ?ys)"
  from assms have zs: "?zs \<noteq> []" by (simp add: py_strip_def)
  then have ys: "?ys \<noteq> []" by (cases ?ys) auto
  from zs have "\<not> py_isspace (hd ?zs)" by (rule hd_dropWhile)
  with zs show "\<not> py_isspace (last (py_strip xs))" by (simp add: py_strip_def last_rev)
  from ys have hy: "\<not> py_isspace (hd ?ys)" by (rule hd_dropWhile)
  have "rev ?ys = takeWhile py_isspace (rev ?ys) @ ?zs" by simp
  with zs have "last ?zs = last (rev ?ys)" by (metis last_appendR)
  with ys have "last ?zs = hd ?ys" by (simp add: last_rev)
  with hy zs show "\<not> py_isspace (hd (py_strip xs))" by (simp add: py_strip_def hd_rev)
qed

lemma strip_id:
  assumes "xs \<noteq> [] \<longrightarrow> \<not> py_isspace (hd xs) \<and> \<not> py_isspace (last xs)"
  shows "py_strip xs = xs"
proof (cases xs)
  case Nil then show ?thesis by (simp add: py_strip_def)
next
  case (Cons a as)
  with assms have a: "\<not> py_isspace a" and l: "\<not> py_isspace (last xs)" by auto
  from Cons a have d1: "dropWhile py_isspace xs = xs" by simp
  from Cons l have d2: "dropWhile py_isspace (rev xs) = rev xs"
  proof -
    from Cons have "hd (rev xs) = last xs" by (simp add: hd_rev)
    with l Cons show ?thesis by (cases "rev xs") auto
  qed
  show ?thesis by (simp add: py_strip_def d1 d2)
qed

lemma allowed_32: "allowed alnum 32" by (simp add: allowed_def isspace_32)

lemma allowed_special: "c \<in> set (re_sub_special alnum t) \<Longrightarrow> allowed alnum c"
  by (auto simp: re_sub_special_def allowed_32)

lemma special_id: "\<forall>c\<in>set t. allowed alnum c \<Longrightarrow> re_sub_special alnum t = t"
  by (simp add: re_sub_special_def map_idI)

lemma clean_allowed: "c \<in> set (docx_clean_text alnum t) \<Longrightarrow> allowed alnum c"
proof -
  assume "c \<in> set (docx_clean_text alnum t)"
  then have "c \<in> set (re_sub_ws (re_sub_special alnum t))"
    using set_strip by (auto simp: docx_clean_text_def)
  then have "c = 32 \<or> c \<in> set (re_sub_special alnum t)" using set_re_sub_ws by auto
  then show ?thesis using allowed_32 allowed_special by auto
qed

lemma clean_ws: "c \<in> set (docx_clean_text alnum t) \<Longrightarrow> py_isspace c \<Longrightarrow> c = 32"
  using set_strip ws_re_sub_ws by (fastforce simp: docx_clean_text_def)

lemma clean_single_spaced: "single_spaced (docx_clean_text alnum t)"
  by (simp add: docx_clean_text_def single_spaced_strip single_spaced_re_sub_ws)

lemma clean_idem: "docx_clean_text alnum (docx_clean_text alnum t) = docx_clean_text alnum t"
proof -
  let ?r = "docx_clean_text alnum t"
  have 1: "re_sub_special alnum ?r = ?r" using clean_allowed by (intro special_id) blast
  have 2: "re_sub_ws ?r = ?r" using clean_single_spaced clean_ws by (intro re_sub_ws_id) blast+
  have 3: "py_strip ?r = ?r"
    using strip_ends [of "re_sub_ws (re_sub_special alnum t)"]
    by (intro strip_id) (simp add: docx_clean_text_def)
  show ?thesis using 1 2 3 by (simp add: docx_clean_text_def [of alnum ?r])
qed

text \<open>
  C10. The cleaning functions of the three scripts return the same string on every
  input: the DOCX, the HTML and the PDF extractor normalise text in the same way.
\<close>

theorem clean_text_format_independent:
  "docx_clean_text alnum T = html_clean_text alnum T \<and>
   html_clean_text alnum T = pdf_clean_text alnum T"
  by (simp add: docx_clean_text_def html_clean_text_def pdf_clean_text_def)

text \<open>
  C2. Cleaning is idempotent: cleaning a cleaned text gives the cleaned text again, for
  every input string.
\<close>

theorem clean_text_idempotent:
  "docx_clean_text alnum (docx_clean_text alnum T) = docx_clean_text alnum T"
  by (rule clean_idem)

text \<open>
  C5. For every input string, the cleaned text has only characters of the allowed set
  (word characters, whitespace, the two ranges, the listed punctuation), has no two
  whitespace characters next to each other, and neither starts nor ends with
  whitespace. The allowed set of the code is written out in the last part: word
  characters, whitespace, U+00C0 to U+1EF9, and the marks \<open>. , ! ? ; : ( ) "\<close> and
  U+2026.
\<close>

theorem clean_text_shape:
  "(\<forall>c \<in> set (docx_clean_text alnum T). allowed alnum c) \<and>
   (\<forall>i. Suc i < length (docx_clean_text alnum T) \<longrightarrow>
      \<not> (py_isspace (docx_clean_text alnum T ! i) \<and>
         py_isspace (docx_clean_text alnum T ! Suc i))) \<and>
   (docx_clean_text alnum T \<noteq> [] \<longrightarrow>
      \<not> py_isspace (hd (docx_clean_text alnum T)) \<and>
      \<not> py_isspace (last (docx_clean_text alnum T))) \<and>
   allowed alnum x =
     (alnum x \<or> x = 95 \<or> py_isspace x \<or> (192 \<le> x \<and> x \<le> 7929) \<or>
      x \<in> {46, 44, 33, 63, 59, 58, 40, 41, 34, 8230})"
proof (intro conjI)
  show "allowed alnum x =
     (alnum x \<or> x = 95 \<or> py_isspace x \<or> (192 \<le> x \<and> x \<le> 7929) \<or>
      x \<in> {46, 44, 33, 63, 59, 58, 40, 41, 34, 8230})"
    by (auto simp: allowed_def re_word_def punctuation_def)
  show "\<forall>c \<in> set (docx_clean_text alnum T). allowed alnum c"
    using clean_allowed by blast
  show "\<forall>i. Suc i < length (docx_clean_text alnum T) \<longrightarrow>
      \<not> (py_isspace (docx_clean_text alnum T ! i) \<and>
         py_isspace (docx_clean_text alnum T ! Suc i))"
    using single_spaced_nth [OF clean_single_spaced] by blast
  show "docx_clean_text alnum T \<noteq> [] \<longrightarrow>
      \<not> py_isspace (hd (docx_clean_text alnum T)) \<and>
      \<not> py_isspace (last (docx_clean_text alnum T))"
    using strip_ends [of "re_sub_ws (re_sub_special alnum T)"]
    by (simp add: docx_clean_text_def)
qed

theorem clean_text_shape_witness:
  "docx_clean_text ascii_isalnum (lit ''  Hello,   wor#ld!  '') = lit ''Hello, wor ld!'' \<and>
   of_char CHR ''H'' \<in> set (docx_clean_text ascii_isalnum (lit ''  Hello,   wor#ld!  '')) \<and>
   allowed ascii_isalnum (of_char CHR ''H'') \<and>
   Suc 6 < length (docx_clean_text ascii_isalnum (lit ''  Hello,   wor#ld!  '')) \<and>
   \<not> (py_isspace (docx_clean_text ascii_isalnum (lit ''  Hello,   wor#ld!  '') ! 6) \<and>
      py_isspace (docx_clean_text ascii_isalnum (lit ''  Hello,   wor#ld!  '') ! Suc 6)) \<and>
   docx_clean_text ascii_isalnum (lit ''  Hello,   wor#ld!  '') \<noteq> [] \<and>
   \<not> py_isspace (hd (docx_clean_text ascii_isalnum (lit ''  Hello,   wor#ld!  ''))) \<and>
   \<not> py_isspace (last (docx_clean_text ascii_isalnum (lit ''  Hello,   wor#ld!  '')))"
proof -
  have e: "docx_clean_text ascii_isalnum (lit ''  Hello,   wor#ld!  '') = lit ''Hello, wor ld!''"
    by (simp add: docx_clean_text_def py_strip_def re_sub_special_def allowed_def re_word_def
        ascii_isalnum_def py_isspace_def punctuation_def)
  have n: "Suc 6 < length (docx_clean_text ascii_isalnum (lit ''  Hello,   wor#ld!  ''))"
    and m: "of_char CHR ''H'' \<in> set (docx_clean_text ascii_isalnum (lit ''  Hello,   wor#ld!  ''))"
    and ne: "docx_clean_text ascii_isalnum (lit ''  Hello,   wor#ld!  '') \<noteq> []"
    unfolding e by simp_all
  from clean_text_shape [of ascii_isalnum "lit ''  Hello,   wor#ld!  ''"] n m ne e
  show ?thesis by blast
qed

lemmas eval_defs = docx_clean_text_def html_clean_text_def pdf_clean_text_def py_strip_def
  re_sub_special_def allowed_def re_word_def ascii_isalnum_def py_isspace_def punctuation_def

text \<open>The apostrophe (39) is outside the class: cleaning replaces it with a space, and a
  text of apostrophes only cleans to the empty string.\<close>

lemma clean_text_apostrophe:
  "docx_clean_text ascii_isalnum (lit ''don'' @ [39] @ lit ''t'') = lit ''don t''"
  "docx_clean_text ascii_isalnum [39, 39] = []"
  by (simp_all add: eval_defs)

section \<open>Properties of the combined corpus, of PDF extraction and of the run\<close>

text \<open>
  C7. The combined corpus is the concatenation of the results in the iteration order of
  the result mapping: each block is the line \<open>=== key ===\<close>, the cleaned text and a
  newline, and the blocks are separated by a blank line. For the keys \<open>a\<close> then \<open>b\<close>
  with the texts \<open>X\<close> and \<open>Y\<close> the content is \<open>=== a ===\<close>, newline, \<open>X\<close>, newline,
  blank line, \<open>=== b ===\<close>, newline, \<open>Y\<close>, newline.
\<close>

theorem combined_text_blocks:
  "combined_text [] = [] \<and>
   combined_text [(k, t)] = lit ''=== '' @ k @ lit '' ==='' @ [10] @ t @ [10] \<and>
   combined_text ((k, t) # (k', t') # rest) =
     lit ''=== '' @ k @ lit '' ==='' @ [10] @ t @ [10] @ [10] @ combined_text ((k', t') # rest) \<and>
   combined_text [(lit ''a'', lit ''X''), (lit ''b'', lit ''Y'')] =
     lit ''=== a ===\<newline>X\<newline>\<newline>=== b ===\<newline>Y\<newline>'' \<and>
   create_combined_dataset output_dir extracted_texts =
     WriteText (output_dir @ lit ''/combined_novel_text.txt'') (combined_text extracted_texts)"
  by (simp add: combined_text_def combined_block_def create_combined_dataset_def path_join_def)

lemma pdf_full_text_filter:
  "pdf_full_text acc pages = acc @ filter (\<lambda>p. py_strip p \<noteq> []) pages"
  by (induction pages arbitrary: acc) auto

text \<open>
  C6. PDF extraction keeps the pages whose text is not empty after trimming, in page
  order, joined by a newline. For three pages where the second is only whitespace, the
  joined text before cleaning is page 1, one newline, page 3. The extractor returns
  the cleaned joined text.
\<close>

theorem pdf_keeps_nonblank_pages:
  "pdf_joined_text pages = py_join [10] (filter (\<lambda>p. py_strip p \<noteq> []) pages) \<and>
   (py_strip p1 \<noteq> [] \<and> py_strip p2 = [] \<and> py_strip p3 \<noteq> [] \<longrightarrow>
      pdf_joined_text [p1, p2, p3] = p1 @ [10] @ p3) \<and>
   extract_text_from_pdf alnum (Some pages) = pdf_clean_text alnum (pdf_joined_text pages)"
  by (simp add: pdf_joined_text_def pdf_full_text_filter extract_text_from_pdf_def)

theorem pdf_keeps_nonblank_pages_witness:
  "py_strip (lit ''one '') \<noteq> [] \<and> py_strip (lit ''  \<newline> '') = [] \<and> py_strip (lit ''three'') \<noteq> [] \<and>
   pdf_joined_text [lit ''one '', lit ''  \<newline> '', lit ''three''] = lit ''one \<newline>three''"
proof -
  have h: "py_strip (lit ''one '') \<noteq> [] \<and> py_strip (lit ''  \<newline> '') = [] \<and> py_strip (lit ''three'') \<noteq> []"
    by (simp add: py_strip_def py_isspace_def)
  from pdf_keeps_nonblank_pages [of "[]" "lit ''one ''" "lit ''  \<newline> ''" "lit ''three''"] h
  show ?thesis by simp
qed

text \<open>
  C9. If the batch gives no result (the result mapping is empty), the run stops before
  any output stage: it writes no text file, no combined corpus and no metadata table.
  The only file system operation of the run is the creation of the output directory by
  the constructor.
\<close>

theorem empty_batch_writes_nothing:
  "process_all_docx_files alnum docx_files = [] \<Longrightarrow>
   docx_main alnum docx_files = [MkDir (lit ''data/clean'')]"
  by (simp add: docx_main_def)

lemma eval_docx_empty:
  "process_all_docx_files ascii_isalnum
     [(lit ''a.docx'', Some [lit ''  '', lit ''#'']), (lit ''b.docx'', None)] = []"
  by (simp add: process_all_docx_files_def extract_text_from_docx_def eval_defs)

theorem empty_batch_writes_nothing_witness:
  "process_all_docx_files ascii_isalnum
     [(lit ''a.docx'', Some [lit ''  '', lit ''#'']), (lit ''b.docx'', None)] = [] \<and>
   docx_main ascii_isalnum
     [(lit ''a.docx'', Some [lit ''  '', lit ''#'']), (lit ''b.docx'', None)] =
     [MkDir (lit ''data/clean'')]"
  using empty_batch_writes_nothing [OF eval_docx_empty] eval_docx_empty by simp



section \<open>Properties of the batch runner and of the metadata\<close>

lemma dict_set_map_fst:
  "set (map fst (dict_set k v d)) = insert k (set (map fst d))"
proof (induction d)
  case Nil
  show ?case by simp
next
  case (Cons e d)
  obtain k' v' where e: "e = (k', v')" by (cases e)
  show ?case
  proof (cases "k' = k")
    case True
    with e show ?thesis by simp
  next
    case False
    with e Cons.IH show ?thesis by (simp add: insert_commute)
  qed
qed

lemma dict_set_keys: "fst ` set (dict_set k v d) = insert k (fst ` set d)"
  using dict_set_map_fst [of k v d] by simp

lemma dict_set_entries:
  "e \<in> set (dict_set k v d) \<Longrightarrow> e = (k, v) \<or> e \<in> set d"
  by (induction d) (auto split: if_splits)

lemma docx_loop_entries:
  "e \<in> set (docx_files_loop alnum acc files) \<Longrightarrow>
   e \<in> set acc \<or>
   (\<exists>(n, d) \<in> set files. e = (path_stem n, extract_text_from_docx alnum d) \<and>
      extract_text_from_docx alnum d \<noteq> [])"
proof (induction files arbitrary: acc)
  case Nil
  then show ?case by simp
next
  case (Cons f files)
  obtain n d where f: "f = (n, d)" by (cases f)
  show ?case
  proof (cases "extract_text_from_docx alnum d = []")
    case True
    with Cons.prems f have "e \<in> set (docx_files_loop alnum acc files)" by simp
    from Cons.IH [OF this] show ?thesis by auto
  next
    case False
    with Cons.prems f
    have "e \<in> set (docx_files_loop alnum
             (dict_set (path_stem n) (extract_text_from_docx alnum d) acc) files)"
      by (simp add: Let_def)
    from Cons.IH [OF this] show ?thesis
    proof
      assume "e \<in> set (dict_set (path_stem n) (extract_text_from_docx alnum d) acc)"
      from dict_set_entries [OF this] False f show ?thesis by auto
    next
      assume "\<exists>(n, d) \<in> set files. e = (path_stem n, extract_text_from_docx alnum d) \<and>
        extract_text_from_docx alnum d \<noteq> []"
      then show ?thesis by auto
    qed
  qed
qed

lemma docx_loop_keys:
  "fst ` set (docx_files_loop alnum acc files) =
   fst ` set acc \<union>
   {path_stem n | n d. (n, d) \<in> set files \<and> extract_text_from_docx alnum d \<noteq> []}"
proof (induction files arbitrary: acc)
  case Nil
  then show ?case by simp
next
  case (Cons f files)
  obtain n d where f: "f = (n, d)" by (cases f)
  show ?case
  proof (cases "extract_text_from_docx alnum d = []")
    case True
    with f Cons.IH [of acc] show ?thesis by auto
  next
    case False
    with f Cons.IH [of "dict_set (path_stem n) (extract_text_from_docx alnum d) acc"]
    show ?thesis by (auto simp: Let_def dict_set_keys)
  qed
qed

lemma docx_loop_filter:
  "docx_files_loop alnum acc files =
   docx_files_loop alnum acc
     (filter (\<lambda>(n, d). extract_text_from_docx alnum d \<noteq> []) files)"
  by (induction files arbitrary: acc) (auto simp: Let_def)

lemma docx_results_entries:
  "(k, t) \<in> set (process_all_docx_files alnum files) \<Longrightarrow>
   \<exists>(n, d) \<in> set files. k = path_stem n \<and> t = extract_text_from_docx alnum d \<and> t \<noteq> []"
  using docx_loop_entries [of "(k, t)" alnum "[]" files]
  by (auto simp: process_all_docx_files_def)

lemma docx_results_keys:
  "(k \<in> fst ` set (process_all_docx_files alnum files)) =
   (\<exists>(n, d) \<in> set files. path_stem n = k \<and> extract_text_from_docx alnum d \<noteq> [])"
  unfolding process_all_docx_files_def docx_loop_keys by auto

lemma docx_results_single:
  assumes "filter (\<lambda>(n, d). extract_text_from_docx alnum d \<noteq> []) files = [(n0, d0)]"
  shows "process_all_docx_files alnum files = [(path_stem n0, extract_text_from_docx alnum d0)]"
proof -
  have "(n0, d0) \<in> set (filter (\<lambda>(n, d). extract_text_from_docx alnum d \<noteq> []) files)"
    using assms by simp
  then have ne: "extract_text_from_docx alnum d0 \<noteq> []" by auto
  have "process_all_docx_files alnum files = docx_files_loop alnum [] [(n0, d0)]"
    unfolding process_all_docx_files_def using docx_loop_filter [of alnum "[]" files] assms
    by simp
  with ne show ?thesis by (simp add: Let_def)
qed

lemma word_count_hello: "length (py_split (lit ''Hello world'')) = 2"
  by (simp add: py_isspace_def)

text \<open>
  C8, as amended. The batch runner never stores an empty string: every stored text is
  non-empty, and a key is in the result mapping if and only if some processed file with
  that key has a non-empty cleaned text. Files with the same key share one entry, so
  this holds file by file when the keys of the files are pairwise distinct. When
  exactly one file of the batch has a non-empty cleaned text and that text is
  \<open>Hello world\<close> (the other files clean to the empty string), the result mapping has
  exactly one entry and the metadata table, which \<open>create_metadata\<close> writes from the
  result mapping, exactly one row, with a word count of 2.
\<close>

theorem batch_never_stores_empty:
  "(\<forall>(k, t) \<in> set (process_all_docx_files alnum files). t \<noteq> []) \<and>
   (\<forall>k. (k \<in> fst ` set (process_all_docx_files alnum files)) =
      (\<exists>(n, d) \<in> set files. path_stem n = k \<and> extract_text_from_docx alnum d \<noteq> [])) \<and>
   (distinct (map (\<lambda>(n, d). path_stem n) files) \<longrightarrow>
      (\<forall>(n, d) \<in> set files.
         (path_stem n \<in> fst ` set (process_all_docx_files alnum files)) =
         (extract_text_from_docx alnum d \<noteq> []))) \<and>
   (filter (\<lambda>(n, d). extract_text_from_docx alnum d \<noteq> []) files = [(n0, d0)] \<and>
    extract_text_from_docx alnum d0 = lit ''Hello world'' \<longrightarrow>
      length (process_all_docx_files alnum files) = 1 \<and>
      length (metadata_rows (process_all_docx_files alnum files)) = 1 \<and>
      map word_count (metadata_rows (process_all_docx_files alnum files)) = [2]) \<and>
   create_metadata output_dir (process_all_docx_files alnum files) =
     WriteCsv (output_dir @ lit ''/metadata.csv'')
       (metadata_rows (process_all_docx_files alnum files))"
proof (intro conjI)
  show "create_metadata output_dir (process_all_docx_files alnum files) =
     WriteCsv (output_dir @ lit ''/metadata.csv'')
       (metadata_rows (process_all_docx_files alnum files))"
    by (simp add: create_metadata_def path_join_def)
  show "\<forall>(k, t) \<in> set (process_all_docx_files alnum files). t \<noteq> []"
    using docx_results_entries by fastforce
  show "\<forall>k. (k \<in> fst ` set (process_all_docx_files alnum files)) =
      (\<exists>(n, d) \<in> set files. path_stem n = k \<and> extract_text_from_docx alnum d \<noteq> [])"
    using docx_results_keys by blast
  show "distinct (map (\<lambda>(n, d). path_stem n) files) \<longrightarrow>
      (\<forall>(n, d) \<in> set files.
         (path_stem n \<in> fst ` set (process_all_docx_files alnum files)) =
         (extract_text_from_docx alnum d \<noteq> []))"
  proof (intro impI ballI)
    fix f assume dist: "distinct (map (\<lambda>(n, d). path_stem n) files)" and f: "f \<in> set files"
    obtain n d where nd: "f = (n, d)" by (cases f)
    from dist have inj: "inj_on (\<lambda>(n, d). path_stem n) (set files)"
      by (simp add: distinct_map)
    have "(path_stem n \<in> fst ` set (process_all_docx_files alnum files)) =
          (extract_text_from_docx alnum d \<noteq> [])"
    proof
      assume "path_stem n \<in> fst ` set (process_all_docx_files alnum files)"
      then obtain n' d' where m: "(n', d') \<in> set files" and s: "path_stem n' = path_stem n"
        and ne: "extract_text_from_docx alnum d' \<noteq> []"
        unfolding docx_results_keys by auto
      from f nd have m': "(n, d) \<in> set files" by simp
      from s have "(\<lambda>(n, d). path_stem n) (n', d') = (\<lambda>(n, d). path_stem n) (n, d)" by simp
      from inj_onD [OF inj this m m'] have "(n', d') = (n, d)" .
      with ne show "extract_text_from_docx alnum d \<noteq> []" by simp
    next
      assume "extract_text_from_docx alnum d \<noteq> []"
      with f nd show "path_stem n \<in> fst ` set (process_all_docx_files alnum files)"
        unfolding docx_results_keys by auto
    qed
    with nd show "case f of (n, d) \<Rightarrow>
         (path_stem n \<in> fst ` set (process_all_docx_files alnum files)) =
         (extract_text_from_docx alnum d \<noteq> [])" by simp
  qed
  show "filter (\<lambda>(n, d). extract_text_from_docx alnum d \<noteq> []) files = [(n0, d0)] \<and>
    extract_text_from_docx alnum d0 = lit ''Hello world'' \<longrightarrow>
      length (process_all_docx_files alnum files) = 1 \<and>
      length (metadata_rows (process_all_docx_files alnum files)) = 1 \<and>
      map word_count (metadata_rows (process_all_docx_files alnum files)) = [2]"
  proof (intro impI, elim conjE)
    assume a: "filter (\<lambda>(n, d). extract_text_from_docx alnum d \<noteq> []) files = [(n0, d0)]"
      and b: "extract_text_from_docx alnum d0 = lit ''Hello world''"
    from docx_results_single [OF a] b
    have "process_all_docx_files alnum files = [(path_stem n0, lit ''Hello world'')]" by simp
    then show "length (process_all_docx_files alnum files) = 1 \<and>
      length (metadata_rows (process_all_docx_files alnum files)) = 1 \<and>
      map word_count (metadata_rows (process_all_docx_files alnum files)) = [2]"
      using word_count_hello by (simp add: metadata_rows_def)
  qed
qed

lemma eval_docx_blank: "extract_text_from_docx ascii_isalnum (Some [lit ''  '']) = []"
  by (simp add: extract_text_from_docx_def eval_defs)

lemma eval_docx_hashes: "extract_text_from_docx ascii_isalnum (Some [lit ''###'']) = []"
  by (simp add: extract_text_from_docx_def eval_defs)

lemma eval_docx_hello:
  "extract_text_from_docx ascii_isalnum (Some [lit ''Hello world'']) = lit ''Hello world''"
  by (simp add: extract_text_from_docx_def eval_defs)

lemma eval_stems:
  "path_stem (lit ''e1.docx'') = lit ''e1''"
  "path_stem (lit ''h.docx'') = lit ''h''"
  "path_stem (lit ''e2.docx'') = lit ''e2''"
  by (simp_all add: path_stem_def)

lemmas eval_docx = eval_docx_blank [simplified] eval_docx_hashes [simplified]
  eval_docx_hello [simplified] eval_stems [simplified]

theorem batch_never_stores_empty_witness:
  "process_all_docx_files ascii_isalnum
     [(lit ''e1.docx'', Some [lit ''  '']), (lit ''h.docx'', Some [lit ''Hello world'']),
      (lit ''e2.docx'', Some [lit ''###''])] = [(lit ''h'', lit ''Hello world'')] \<and>
   distinct (map (\<lambda>(n, d). path_stem n)
     [(lit ''e1.docx'', Some [lit ''  '']), (lit ''h.docx'', Some [lit ''Hello world'']),
      (lit ''e2.docx'', Some [lit ''###''])]) \<and>
   filter (\<lambda>(n, d). extract_text_from_docx ascii_isalnum d \<noteq> [])
     [(lit ''e1.docx'', Some [lit ''  '']), (lit ''h.docx'', Some [lit ''Hello world'']),
      (lit ''e2.docx'', Some [lit ''###''])] = [(lit ''h.docx'', Some [lit ''Hello world''])] \<and>
   length (process_all_docx_files ascii_isalnum
     [(lit ''e1.docx'', Some [lit ''  '']), (lit ''h.docx'', Some [lit ''Hello world'']),
      (lit ''e2.docx'', Some [lit ''###''])]) = 1 \<and>
   length (metadata_rows (process_all_docx_files ascii_isalnum
     [(lit ''e1.docx'', Some [lit ''  '']), (lit ''h.docx'', Some [lit ''Hello world'']),
      (lit ''e2.docx'', Some [lit ''###''])])) = 1 \<and>
   map word_count (metadata_rows (process_all_docx_files ascii_isalnum
     [(lit ''e1.docx'', Some [lit ''  '']), (lit ''h.docx'', Some [lit ''Hello world'']),
      (lit ''e2.docx'', Some [lit ''###''])])) = [2]"
proof -
  let ?files = "[(lit ''e1.docx'', Some [lit ''  '']), (lit ''h.docx'', Some [lit ''Hello world'']),
      (lit ''e2.docx'', Some [lit ''###''])]"
  have f: "filter (\<lambda>(n, d). extract_text_from_docx ascii_isalnum d \<noteq> []) ?files =
      [(lit ''h.docx'', Some [lit ''Hello world''])]"
    by (simp add: eval_docx)
  have d: "distinct (map (\<lambda>(n, d). path_stem n) ?files)"
    by (simp add: eval_docx)
  have r: "process_all_docx_files ascii_isalnum ?files = [(lit ''h'', lit ''Hello world'')]"
    by (simp add: process_all_docx_files_def eval_docx)
  from batch_never_stores_empty
         [of ascii_isalnum ?files "lit ''h.docx''" "Some [lit ''Hello world'']"]
       f eval_docx_hello
  have "length (process_all_docx_files ascii_isalnum ?files) = 1 \<and>
      length (metadata_rows (process_all_docx_files ascii_isalnum ?files)) = 1 \<and>
      map word_count (metadata_rows (process_all_docx_files ascii_isalnum ?files)) = [2]"
    by blast
  with f d r show ?thesis by blast
qed

text \<open>
  C8 as stated fails for files that share a key. The files \<open>.docx\<close> and \<open>.docx.docx\<close>
  both have the stem \<open>.docx\<close>; the first has the text \<open>Hi\<close> and the second is blank.
  The cleaned text of the second file is empty, and its key is in the result mapping.
\<close>

theorem shared_key_recorded_for_blank_file_counterexample:
  "extract_text_from_docx ascii_isalnum (Some [lit ''  '']) = [] \<and>
   path_stem (lit ''.docx.docx'') = lit ''.docx'' \<and>
   process_all_docx_files ascii_isalnum
     [(lit ''.docx'', Some [lit ''Hi'']), (lit ''.docx.docx'', Some [lit ''  ''])] =
     [(lit ''.docx'', lit ''Hi'')] \<and>
   path_stem (lit ''.docx.docx'') \<in> fst ` set (process_all_docx_files ascii_isalnum
     [(lit ''.docx'', Some [lit ''Hi'']), (lit ''.docx.docx'', Some [lit ''  ''])])"
  by (simp add: process_all_docx_files_def extract_text_from_docx_def path_stem_def eval_defs)

lemma isspace_10: "py_isspace 10" by (simp add: py_isspace_def)

lemma clean_no_newline: "10 \<notin> set (docx_clean_text alnum t)"
  using clean_ws [of 10 alnum t] isspace_10 by auto

lemma extract_docx_no_newline: "10 \<notin> set (extract_text_from_docx alnum d)"
  by (cases d) (simp_all add: extract_text_from_docx_def clean_no_newline)

lemma split_chr_no_sep: "sep \<notin> set t \<Longrightarrow> py_split_chr sep t = [t]"
  by (induction t) auto

text \<open>Every row of the metadata table has the line count 1, whatever the documents are:
  the count is taken on the cleaned text, which has no newline.\<close>

lemma metadata_line_count_one:
  "row \<in> set (metadata_rows (process_all_docx_files alnum files)) \<Longrightarrow> line_count row = 1"
proof -
  assume "row \<in> set (metadata_rows (process_all_docx_files alnum files))"
  then obtain k t where kt: "(k, t) \<in> set (process_all_docx_files alnum files)"
    and row: "line_count row = length (py_split_chr 10 t)"
    by (auto simp: metadata_rows_def)
  from docx_results_entries [OF kt] obtain n d where
    t: "t = extract_text_from_docx alnum d" by auto
  have "py_split_chr 10 t = [t]"
    unfolding t using extract_docx_no_newline by (rule split_chr_no_sep)
  with row show ?thesis by simp
qed

lemma eval_docx_ab:
  "extract_text_from_docx ascii_isalnum (Some [lit ''a'', lit ''b'']) = lit ''a b''"
  by (simp add: extract_text_from_docx_def eval_defs)

text \<open>
  C4. The line count of a row should be the number of newline-separated segments of the
  extracted text before cleaning collapses them, and the character and word counts come
  from the cleaned text. The code takes the line count from the cleaned text as well:
  for a document with the two paragraphs \<open>a\<close> and \<open>b\<close>, the text before cleaning has two
  segments, the cleaned text is \<open>a b\<close>, and the row has the character count 3, the
  word count 2 and the line count 1.
\<close>

theorem line_count_taken_after_cleaning:
  "py_join [10] (docx_full_text [] [lit ''a'', lit ''b'']) = lit ''a\<newline>b'' \<and>
   length (py_split_chr 10 (py_join [10] (docx_full_text [] [lit ''a'', lit ''b'']))) = 2 \<and>
   process_all_docx_files ascii_isalnum [(lit ''f.docx'', Some [lit ''a'', lit ''b''])] =
     [(lit ''f'', lit ''a b'')] \<and>
   metadata_rows (process_all_docx_files ascii_isalnum
     [(lit ''f.docx'', Some [lit ''a'', lit ''b''])]) =
     [\<lparr>filename = lit ''f'', character_count = 3, word_count = 2, line_count = 1\<rparr>]"
  by (simp add: metadata_rows_def process_all_docx_files_def eval_docx_ab [simplified]
      path_stem_def py_strip_def py_isspace_def)


section \<open>Properties of HTML extraction and of the keys\<close>

lemmas html_preds = is_article_def is_p_def is_story_content_def is_body_def

lemma html_text_parts_filter:
  "html_text_parts acc ps =
   acc @ filter (\<lambda>s. s \<noteq> []) (map (\<lambda>p. py_strip (get_text (tag_children p))) ps)"
  by (induction ps arbitrary: acc) (auto simp: Let_def)

lemma find_first_None: "(find_first P soup = None) = (\<not> (\<exists>t \<in> set (descendants soup). P t))"
proof -
  have "(find_first P soup = None) = (filter P (descendants soup) = [])"
    by (simp add: find_first_def find_all_def split: list.splits)
  then show ?thesis by (simp add: filter_empty_conv)
qed

lemma find_first_Some:
  "find_first P soup = Some t \<Longrightarrow> P t \<and> t \<in> set (descendants soup)"
proof -
  assume "find_first P soup = Some t"
  then obtain ts where "filter P (descendants soup) = t # ts"
    by (auto simp: find_first_def find_all_def split: list.splits)
  then have "t \<in> set (filter P (descendants soup))" by simp
  then show ?thesis by simp
qed

text \<open>
  C1, as amended. HTML extraction chooses its rule by the presence of elements. When
  the document has an \<open>article\<close> element, the text is the newline-joined trimmed text of
  the non-empty \<open>p\<close> elements inside the first one, also when there are none. The text
  of the first \<open>div\<close> with class \<open>story-content\<close> is used only when the document has no
  \<open>article\<close> element, the text of \<open>body\<close> only when it has neither, and the text of the
  whole document only when it has none of the three. \<open>find\<close> gives nothing exactly when
  no tag of the document matches. The choice is made after the \<open>script\<close> and \<open>style\<close>
  subtrees are removed, and the chosen text is then cleaned.
\<close>

theorem html_fallback_by_presence:
  "(find_first is_article soup = Some a \<longrightarrow>
      html_select_text soup =
        py_join [10] (filter (\<lambda>s. s \<noteq> [])
          (map (\<lambda>p. py_strip (get_text (tag_children p))) (find_all is_p (tag_children a))))) \<and>
   (find_first is_article soup = None \<and> find_first is_story_content soup = Some s \<longrightarrow>
      html_select_text soup = get_text (tag_children s)) \<and>
   (find_first is_article soup = None \<and> find_first is_story_content soup = None \<and>
    find_first is_body soup = Some b \<longrightarrow>
      html_select_text soup = get_text (tag_children b)) \<and>
   (find_first is_article soup = None \<and> find_first is_story_content soup = None \<and>
    find_first is_body soup = None \<longrightarrow>
      html_select_text soup = get_text soup) \<and>
   (find_first P soup = None) = (\<not> (\<exists>t \<in> set (descendants soup). P t)) \<and>
   (find_first P soup = Some t \<longrightarrow> P t \<and> t \<in> set (descendants soup)) \<and>
   extract_text_from_html alnum (Some parsed) =
     html_clean_text alnum
       (html_select_text (decompose_all [lit ''script'', lit ''style''] parsed))"
  using find_first_None [of P soup] find_first_Some [of P soup t]
  by (simp add: html_select_text_def html_text_parts_filter extract_text_from_html_def)

lemma html_article_eval:
  "find_first is_article
     [Tag (lit ''body'') []
        [Tag (lit ''article'') []
           [Tag (lit ''p'') [] [Text (lit '' One '')], Tag (lit ''p'') [] [Text (lit ''  '')],
            Tag (lit ''div'') [] [Tag (lit ''p'') [] [Text (lit ''Two'')]]],
         Tag (lit ''div'') [lit ''story-content''] [Text (lit ''S'')]]] =
   Some (Tag (lit ''article'') []
           [Tag (lit ''p'') [] [Text (lit '' One '')], Tag (lit ''p'') [] [Text (lit ''  '')],
            Tag (lit ''div'') [] [Tag (lit ''p'') [] [Text (lit ''Two'')]]])"
  by (simp add: find_first_def find_all_def html_preds)

lemma html_story_eval:
  "find_first is_article
     [Tag (lit ''body'') []
        [Tag (lit ''div'') [lit ''box'', lit ''story-content'']
           [Text (lit ''S''), Tag (lit ''b'') [] [Text (lit ''T'')]],
         Text (lit ''rest'')]] = None"
  "find_first is_story_content
     [Tag (lit ''body'') []
        [Tag (lit ''div'') [lit ''box'', lit ''story-content'']
           [Text (lit ''S''), Tag (lit ''b'') [] [Text (lit ''T'')]],
         Text (lit ''rest'')]] =
   Some (Tag (lit ''div'') [lit ''box'', lit ''story-content'']
           [Text (lit ''S''), Tag (lit ''b'') [] [Text (lit ''T'')]])"
  by (simp_all add: find_first_def find_all_def html_preds)

lemma html_body_eval:
  "find_first is_article [Tag (lit ''body'') [] [Text (lit ''B''), Tag (lit ''i'') [] [Text (lit ''C'')]]] = None"
  "find_first is_story_content [Tag (lit ''body'') [] [Text (lit ''B''), Tag (lit ''i'') [] [Text (lit ''C'')]]] = None"
  "find_first is_body [Tag (lit ''body'') [] [Text (lit ''B''), Tag (lit ''i'') [] [Text (lit ''C'')]]] =
   Some (Tag (lit ''body'') [] [Text (lit ''B''), Tag (lit ''i'') [] [Text (lit ''C'')]])"
  by (simp_all add: find_first_def find_all_def html_preds)

lemma html_bare_eval:
  "find_first is_article [Text (lit ''x''), Tag (lit ''span'') [] [Text (lit ''y'')]] = None"
  "find_first is_story_content [Text (lit ''x''), Tag (lit ''span'') [] [Text (lit ''y'')]] = None"
  "find_first is_body [Text (lit ''x''), Tag (lit ''span'') [] [Text (lit ''y'')]] = None"
  by (simp_all add: find_first_def find_all_def html_preds)

theorem html_fallback_by_presence_witness:
  "find_first is_article
     [Tag (lit ''body'') []
        [Tag (lit ''article'') []
           [Tag (lit ''p'') [] [Text (lit '' One '')], Tag (lit ''p'') [] [Text (lit ''  '')],
            Tag (lit ''div'') [] [Tag (lit ''p'') [] [Text (lit ''Two'')]]],
         Tag (lit ''div'') [lit ''story-content''] [Text (lit ''S'')]]] =
   Some (Tag (lit ''article'') []
           [Tag (lit ''p'') [] [Text (lit '' One '')], Tag (lit ''p'') [] [Text (lit ''  '')],
            Tag (lit ''div'') [] [Tag (lit ''p'') [] [Text (lit ''Two'')]]]) \<and>
   html_select_text
     [Tag (lit ''body'') []
        [Tag (lit ''article'') []
           [Tag (lit ''p'') [] [Text (lit '' One '')], Tag (lit ''p'') [] [Text (lit ''  '')],
            Tag (lit ''div'') [] [Tag (lit ''p'') [] [Text (lit ''Two'')]]],
         Tag (lit ''div'') [lit ''story-content''] [Text (lit ''S'')]]] = lit ''One\<newline>Two'' \<and>
   html_select_text
     [Tag (lit ''body'') []
        [Tag (lit ''div'') [lit ''box'', lit ''story-content'']
           [Text (lit ''S''), Tag (lit ''b'') [] [Text (lit ''T'')]],
         Text (lit ''rest'')]] = lit ''ST'' \<and>
   html_select_text
     [Tag (lit ''body'') [] [Text (lit ''B''), Tag (lit ''i'') [] [Text (lit ''C'')]]] = lit ''BC'' \<and>
   html_select_text [Text (lit ''x''), Tag (lit ''span'') [] [Text (lit ''y'')]] = lit ''xy''"
proof -
  note a = html_fallback_by_presence [THEN conjunct1, rule_format, OF html_article_eval]
  note b = html_fallback_by_presence
             [THEN conjunct2, THEN conjunct1, rule_format, OF conjI, OF html_story_eval]
  note c = html_fallback_by_presence
             [THEN conjunct2, THEN conjunct2, THEN conjunct1, rule_format,
              OF conjI [OF html_body_eval(1) conjI [OF html_body_eval(2) html_body_eval(3)]]]
  note d = html_fallback_by_presence
             [THEN conjunct2, THEN conjunct2, THEN conjunct2, THEN conjunct1, rule_format,
              OF conjI [OF html_bare_eval(1) conjI [OF html_bare_eval(2) html_bare_eval(3)]]]
  have "html_select_text
     [Tag (lit ''body'') []
        [Tag (lit ''article'') []
           [Tag (lit ''p'') [] [Text (lit '' One '')], Tag (lit ''p'') [] [Text (lit ''  '')],
            Tag (lit ''div'') [] [Tag (lit ''p'') [] [Text (lit ''Two'')]]],
         Tag (lit ''div'') [lit ''story-content''] [Text (lit ''S'')]]] = lit ''One\<newline>Two''"
    unfolding a by (simp add: find_all_def html_preds py_strip_def py_isspace_def)
  moreover have "html_select_text
     [Tag (lit ''body'') []
        [Tag (lit ''div'') [lit ''box'', lit ''story-content'']
           [Text (lit ''S''), Tag (lit ''b'') [] [Text (lit ''T'')]],
         Text (lit ''rest'')]] = lit ''ST''"
    unfolding b by simp
  moreover have "html_select_text
     [Tag (lit ''body'') [] [Text (lit ''B''), Tag (lit ''i'') [] [Text (lit ''C'')]]] = lit ''BC''"
    unfolding c by simp
  moreover have "html_select_text [Text (lit ''x''), Tag (lit ''span'') [] [Text (lit ''y'')]] = lit ''xy''"
    unfolding d by simp
  ultimately show ?thesis using html_article_eval by blast
qed

text \<open>
  C1 as stated fails. In a document with an \<open>article\<close> that has no paragraph, followed
  by a \<open>div\<close> of class \<open>story-content\<close> with the text \<open>Hi\<close>, rule (a) finds nothing
  and the extracted text is empty, not \<open>Hi\<close>. And an element of class \<open>story-content\<close>
  that is not a \<open>div\<close> is not selected: the text is that of the whole document.
\<close>

theorem html_article_without_paragraphs_counterexample:
  "html_text_parts []
     (find_all is_p (tag_children (Tag (lit ''article'') [] [Tag (lit ''h1'') [] [Text (lit ''T'')]]))) = [] \<and>
   find_first is_story_content
     [Tag (lit ''article'') [] [Tag (lit ''h1'') [] [Text (lit ''T'')]],
      Tag (lit ''div'') [lit ''story-content''] [Text (lit ''Hi'')]] =
     Some (Tag (lit ''div'') [lit ''story-content''] [Text (lit ''Hi'')]) \<and>
   get_text (tag_children (Tag (lit ''div'') [lit ''story-content''] [Text (lit ''Hi'')])) = lit ''Hi'' \<and>
   html_select_text
     [Tag (lit ''article'') [] [Tag (lit ''h1'') [] [Text (lit ''T'')]],
      Tag (lit ''div'') [lit ''story-content''] [Text (lit ''Hi'')]] = [] \<and>
   extract_text_from_html ascii_isalnum
     (Some [Tag (lit ''article'') [] [Tag (lit ''h1'') [] [Text (lit ''T'')]],
            Tag (lit ''div'') [lit ''story-content''] [Text (lit ''Hi'')]]) = [] \<and>
   html_select_text
     [Tag (lit ''section'') [lit ''story-content''] [Text (lit ''Hi'')],
      Tag (lit ''h1'') [] [Text (lit ''T'')]] = lit ''HiT''"
  by (simp add: html_select_text_def extract_text_from_html_def find_first_def find_all_def
      html_preds eval_defs)

text \<open>
  C3. The key of a file of a recursive scan should be its relative path with the
  separators replaced by underscores and the extension stripped from the end. The code
  gives the file \<open>page.html\<close> the key \<open>pagel\<close>: the removal of \<open>.htm\<close> runs first and
  leaves the \<open>l\<close>. It also removes the extension wherever it occurs in the path: the PDF
  file \<open>my.pdfs/a.pdf\<close> gets the key \<open>mys_a\<close>.
\<close>

theorem file_key_strips_inside_the_path:
  "html_file_key (lit ''page.html'') = lit ''pagel'' \<and>
   process_all_html_files ascii_isalnum [(lit ''page.html'', Some [Text (lit ''Hi'')])] =
     [(lit ''pagel'', lit ''Hi'')] \<and>
   pdf_file_key (lit ''my.pdfs/a.pdf'') = lit ''mys_a'' \<and>
   process_all_pdf_files ascii_isalnum [(lit ''my.pdfs/a.pdf'', Some [lit ''Hi''])] =
     [(lit ''mys_a'', lit ''Hi'')]"
  by (simp add: html_file_key_def pdf_file_key_def py_replace_def process_all_html_files_def
      process_all_pdf_files_def extract_text_from_html_def extract_text_from_pdf_def
      html_select_text_def find_first_def find_all_def html_preds pdf_joined_text_def eval_defs)


end
